theory Spec2Isabelle
  imports Complex_Main "HOL-Library.AList"
begin

section \<open>The estimator builder of spleeter.model\<close>

text \<open>
  A shallow embedding of \<^verbatim>\<open>spleeter/model/__init__.py\<close>. Tensors are arrays of
  exact real (or complex) numbers with an explicit shape: the rounding of the float32
  arithmetic that tensorflow runs is outside the model, and the mask arithmetic is
  guarded by the float32 range. Exceptions are values of the type \<open>error\<close>, and every function that can raise
  returns \<open>error + 'a\<close>. A leading underscore of a Python name is dropped
  (\<^verbatim>\<open>_build_loss\<close> is \<open>build_loss\<close>).
\<close>

subsection \<open>Exceptions\<close>

datatype error =
    KeyError string
  | ValueError string
  | ModuleNotFoundError string
  | AttributeError string
  | InvalidArgumentError string
  | ZeroDivisionError
  | TypeError string
  | FloatRange string

subsection \<open>Tensors\<close>

text \<open>
  A tensor of rank 4 (batch, time, frequency, channel), of rank 3 (frame, frequency,
  channel) and of rank 2 (sample, channel): its dimensions and its entries. The entry
  function is only meaningful inside the dimensions.
\<close>

record 'a tensor4 =
  dim0 :: nat
  dim1 :: nat
  dim2 :: nat
  dim3 :: nat
  entry :: "nat \<Rightarrow> nat \<Rightarrow> nat \<Rightarrow> nat \<Rightarrow> 'a"

record 'a tensor3 =
  len0 :: nat
  len1 :: nat
  len2 :: nat
  entry3 :: "nat \<Rightarrow> nat \<Rightarrow> nat \<Rightarrow> 'a"

record 'a tensor2 =
  rows :: nat
  cols :: nat
  entry2 :: "nat \<Rightarrow> nat \<Rightarrow> 'a"

text \<open>The values a features dictionary holds.\<close>

datatype feature =
    Waveform "real tensor2"
  | Stft "complex tensor3"
  | Spectrogram "real tensor4"
  | AudioId string

subsection \<open>Configuration\<close>

text \<open>
  The \<^verbatim>\<open>params\<close> dictionary: one optional field per key the module reads, \<open>None\<close>
  when the key is absent. \<open>'p\<close> is the type of the model function's own parameters
  (\<^verbatim>\<open>params['model']['params']\<close>), which this module only passes on. The separation
  exponent is any number.
\<close>

record 'p model_config =
  model_type :: "string option"
  model_params :: "'p option"

record 'p params =
  mix_name :: "string option"
  instrument_list :: "string list option"
  n_channels :: "int option"
  key_T :: "int option"
  key_F :: "int option"
  frame_length :: "int option"
  frame_step :: "int option"
  model :: "'p model_config option"
  loss_type :: "string option"
  optimizer :: "string option"
  learning_rate :: "real option"
  MWF :: "bool option"
  mask_extension :: "string option"
  separation_exponent :: "real option"

definition DEFAULT_MODEL :: string where
  "DEFAULT_MODEL = ''unet.unet''"

definition L1_MASK :: string where
  "L1_MASK = ''L1_mask''"

definition WEIGHTED_L1_MASK :: string where
  "WEIGHTED_L1_MASK = ''weighted_L1_mask''"

definition ADADELTA :: string where
  "ADADELTA = ''Adadelta''"

definition SGD :: string where
  "SGD = ''SGD''"

definition WINDOW_COMPENSATION_FACTOR :: real where
  "WINDOW_COMPENSATION_FACTOR = 2 / 3"

definition EPSILON :: real where
  "EPSILON = 1 / 10 ^ 10"

subsection \<open>Tensor operations\<close>

text \<open>Elementwise application of a function: \<^verbatim>\<open>tf.abs\<close>, \<^verbatim>\<open>x ** p\<close>, \<^verbatim>\<open>x + c\<close>.\<close>

definition tmap4 :: "('a \<Rightarrow> 'b) \<Rightarrow> 'a tensor4 \<Rightarrow> 'b tensor4" where
  "tmap4 f x =
    \<lparr> dim0 = dim0 x, dim1 = dim1 x, dim2 = dim2 x, dim3 = dim3 x,
      entry = (\<lambda>b t k c. f (entry x b t k c)) \<rparr>"

definition same_shape :: "'a tensor4 \<Rightarrow> 'b tensor4 \<Rightarrow> bool" where
  "same_shape x y \<longleftrightarrow>
    dim0 x = dim0 y \<and> dim1 x = dim1 y \<and> dim2 x = dim2 y \<and> dim3 x = dim3 y"


text \<open>
  A binary elementwise operation with tensorflow's broadcasting: two dimensions are
  compatible when they are equal or one of them is 1, and an axis of size 1 is
  repeated along the other tensor's axis. Incompatible shapes raise.
\<close>

definition broadcast_dim :: "nat \<Rightarrow> nat \<Rightarrow> nat option" where
  "broadcast_dim m n =
    (if m = n then Some m else if m = 1 then Some n else if n = 1 then Some m else None)"

definition bidx :: "nat \<Rightarrow> nat \<Rightarrow> nat" where
  "bidx d i = (if d = 1 then 0 else i)"

definition broadcast4 ::
  "('a \<Rightarrow> 'b \<Rightarrow> 'c) \<Rightarrow> 'a tensor4 \<Rightarrow> 'b tensor4 \<Rightarrow> error + 'c tensor4" where
  "broadcast4 f x y =
    (case (broadcast_dim (dim0 x) (dim0 y), broadcast_dim (dim1 x) (dim1 y),
           broadcast_dim (dim2 x) (dim2 y), broadcast_dim (dim3 x) (dim3 y)) of
       (Some d0, Some d1, Some d2, Some d3) \<Rightarrow>
         Inr \<lparr> dim0 = d0, dim1 = d1, dim2 = d2, dim3 = d3,
               entry = (\<lambda>b t k c.
                 f (entry x (bidx (dim0 x) b) (bidx (dim1 x) t) (bidx (dim2 x) k) (bidx (dim3 x) c))
                   (entry y (bidx (dim0 y) b) (bidx (dim1 y) t) (bidx (dim2 y) k) (bidx (dim3 y) c))) \<rparr>
     | _ \<Rightarrow> Inl (InvalidArgumentError ''Incompatible shapes''))"

text \<open>
  \<^verbatim>\<open>tf.reduce_mean(x)\<close> over all axes, \<^verbatim>\<open>tf.reduce_mean(x, axis=[1, 2, 3],
  keep_dims=True)\<close> and \<^verbatim>\<open>tf.reduce_mean(x, axis=2, keepdims=True)\<close>. Over an empty
  axis tensorflow's mean is NaN, which the model does not have: the theorems about a
  mean assume the axes it runs over are not empty.
\<close>

definition size4 :: "'a tensor4 \<Rightarrow> nat" where
  "size4 x = dim0 x * dim1 x * dim2 x * dim3 x"

definition reduce_mean :: "real tensor4 \<Rightarrow> real" where
  "reduce_mean x =
    (\<Sum>b<dim0 x. \<Sum>t<dim1 x. \<Sum>k<dim2 x. \<Sum>c<dim3 x. entry x b t k c) / real (size4 x)"

definition reduce_mean_123 :: "real tensor4 \<Rightarrow> real tensor4" where
  "reduce_mean_123 x =
    \<lparr> dim0 = dim0 x, dim1 = 1, dim2 = 1, dim3 = 1,
      entry = (\<lambda>b _ _ _. (\<Sum>t<dim1 x. \<Sum>k<dim2 x. \<Sum>c<dim3 x. entry x b t k c)
                 / real (dim1 x * dim2 x * dim3 x)) \<rparr>"

definition reduce_mean_2 :: "real tensor4 \<Rightarrow> real tensor4" where
  "reduce_mean_2 x =
    \<lparr> dim0 = dim0 x, dim1 = dim1 x, dim2 = 1, dim3 = dim3 x,
      entry = (\<lambda>b t _ c. (\<Sum>k<dim2 x. entry x b t k c) / real (dim2 x)) \<rparr>"

text \<open>
  \<^verbatim>\<open>tf.reduce_sum(list_of_tensors, axis=0)\<close>: the list is packed into one tensor,
  which needs equal shapes, and summed over the list. The sum of an empty list is the
  scalar 0, held here as a tensor of shape (1, 1, 1, 1), which broadcasts as a scalar does.
\<close>

definition zeros :: "nat \<Rightarrow> nat \<Rightarrow> nat \<Rightarrow> nat \<Rightarrow> real tensor4" where
  "zeros d0 d1 d2 d3 =
    \<lparr> dim0 = d0, dim1 = d1, dim2 = d2, dim3 = d3, entry = (\<lambda>_ _ _ _. 0) \<rparr>"

definition reduce_sum_axis0 :: "real tensor4 list \<Rightarrow> error + real tensor4" where
  "reduce_sum_axis0 ts =
    (case ts of
       [] \<Rightarrow> Inr (zeros 1 1 1 1)
     | x # xs \<Rightarrow>
         if list_all (same_shape x) xs
         then Inr \<lparr> dim0 = dim0 x, dim1 = dim1 x, dim2 = dim2 x, dim3 = dim3 x,
                    entry = (\<lambda>b t k c. \<Sum>y\<leftarrow>ts. entry y b t k c) \<rparr>
         else Inl (InvalidArgumentError ''Shapes of all inputs must match''))"

text \<open>
  \<^verbatim>\<open>tf.tile(x, [1, 1, n, 1])\<close>, which raises for a negative multiple, and
  \<^verbatim>\<open>tf.concat([x, y], axis=2)\<close>, which raises unless the other axes agree.
\<close>

definition tile_axis2 :: "real tensor4 \<Rightarrow> int \<Rightarrow> error + real tensor4" where
  "tile_axis2 x n =
    (if n < 0 then Inl (InvalidArgumentError ''Expected multiples[2] >= 0'')
     else Inr \<lparr> dim0 = dim0 x, dim1 = dim1 x, dim2 = dim2 x * nat n, dim3 = dim3 x,
                entry = (\<lambda>b t k c. entry x b t (k mod dim2 x) c) \<rparr>)"

definition concat_axis2 :: "real tensor4 \<Rightarrow> real tensor4 \<Rightarrow> error + real tensor4" where
  "concat_axis2 x y =
    (if dim0 x = dim0 y \<and> dim1 x = dim1 y \<and> dim3 x = dim3 y
     then Inr \<lparr> dim0 = dim0 x, dim1 = dim1 x, dim2 = dim2 x + dim2 y, dim3 = dim3 x,
                entry = (\<lambda>b t k c.
                  if k < dim2 x then entry x b t k c else entry y b t (k - dim2 x) c) \<rparr>
     else Inl (InvalidArgumentError ''Dimensions of inputs should match''))"

subsection \<open>The builder\<close>

record 'p builder =
  self_features :: "string \<rightharpoonup> feature"
  self_params :: "'p params"
  self_mix_name :: string
  self_instruments :: "string list"
  self_n_channels :: int
  self_T :: int
  self_F :: int
  self_frame_length :: int
  self_frame_step :: int

text \<open>\<^verbatim>\<open>params[key]\<close>: a \<^verbatim>\<open>KeyError\<close> when the key is absent.\<close>

definition subscript :: "string \<Rightarrow> 'a option \<Rightarrow> error + 'a" where
  "subscript key v = (case v of None \<Rightarrow> Inl (KeyError key) | Some x \<Rightarrow> Inr x)"

text \<open>\<^verbatim>\<open>EstimatorSpecBuilder.__init__\<close>: the required keys are read in this order.\<close>

definition init :: "(string \<rightharpoonup> feature) \<Rightarrow> 'p params \<Rightarrow> error + 'p builder" where
  "init features ps =
    (case subscript ''mix_name'' (mix_name ps) of Inl e \<Rightarrow> Inl e | Inr mn \<Rightarrow>
     case subscript ''instrument_list'' (instrument_list ps) of Inl e \<Rightarrow> Inl e | Inr il \<Rightarrow>
     case subscript ''n_channels'' (n_channels ps) of Inl e \<Rightarrow> Inl e | Inr nc \<Rightarrow>
     case subscript ''T'' (key_T ps) of Inl e \<Rightarrow> Inl e | Inr t \<Rightarrow>
     case subscript ''F'' (key_F ps) of Inl e \<Rightarrow> Inl e | Inr f \<Rightarrow>
     case subscript ''frame_length'' (frame_length ps) of Inl e \<Rightarrow> Inl e | Inr fl \<Rightarrow>
     case subscript ''frame_step'' (frame_step ps) of Inl e \<Rightarrow> Inl e | Inr fs \<Rightarrow>
       Inr \<lparr> self_features = features, self_params = ps, self_mix_name = mn,
             self_instruments = il, self_n_channels = nc, self_T = t, self_F = f,
             self_frame_length = fl, self_frame_step = fs \<rparr>)"

subsection \<open>Optimizer\<close>

datatype optimizer_instance =
    AdadeltaOptimizer
  | GradientDescentOptimizer real
  | AdamOptimizer real

text \<open>
  \<^verbatim>\<open>_build_optimizer\<close>: \<^verbatim>\<open>params.get('optimizer')\<close> is \<open>None\<close> for an absent key;
  the learning rate is read only after the Adadelta branch has returned.
\<close>

definition build_optimizer :: "'p builder \<Rightarrow> error + optimizer_instance" where
  "build_optimizer self =
    (let name = optimizer (self_params self) in
     if name = Some ADADELTA then Inr AdadeltaOptimizer
     else case subscript ''learning_rate'' (learning_rate (self_params self)) of
       Inl e \<Rightarrow> Inl e
     | Inr rate \<Rightarrow>
         if name = Some SGD then Inr (GradientDescentOptimizer rate)
         else Inr (AdamOptimizer rate))"

subsection \<open>Model loader\<close>

text \<open>Python's \<^verbatim>\<open>str.split(sep)\<close> for a one-character separator, and \<^verbatim>\<open>sep.join\<close>.\<close>

fun str_split :: "char \<Rightarrow> string \<Rightarrow> string list" where
  "str_split sep [] = [[]]"
| "str_split sep (c # cs) =
    (if c = sep then [] # str_split sep cs
     else (case str_split sep cs of [] \<Rightarrow> [[c]] | w # ws \<Rightarrow> (c # w) # ws))"

fun str_join :: "string \<Rightarrow> string list \<Rightarrow> string" where
  "str_join sep [] = []"
| "str_join sep [x] = x"
| "str_join sep (x # y # ys) = x @ sep @ str_join sep (y # ys)"

text \<open>
  The output dictionary of a model function, in insertion order, and the model
  function itself: it takes the input feature, the instrument names and its own
  parameters. The importable modules are a map from the dotted module path: a path
  that names no module is absent; a module that is located either raises while it is
  executed (an import inside it that cannot be resolved raises
  \<^verbatim>\<open>ModuleNotFoundError\<close>) or gives its attributes.
\<close>

type_synonym output_dict = "(string \<times> real tensor4) list"

type_synonym 'p model_function = "feature \<Rightarrow> string list \<Rightarrow> 'p \<Rightarrow> output_dict"

type_synonym 'p modules = "string \<rightharpoonup> (error + (string \<rightharpoonup> 'p model_function))"

definition relative_path_to_module :: "string \<Rightarrow> string" where
  "relative_path_to_module mt = str_join ''.'' (butlast (str_split CHR ''.'' mt))"

definition model_name :: "string \<Rightarrow> string" where
  "model_name mt = last (str_split CHR ''.'' mt)"

definition main_module :: string where
  "main_module = str_join ''.'' [''spleeter.model'', ''functions'']"

definition path_to_module :: "string \<Rightarrow> string" where
  "path_to_module mt = main_module @ ''.'' @ relative_path_to_module mt"

text \<open>
  \<^verbatim>\<open>importlib.import_module\<close> raises \<^verbatim>\<open>ModuleNotFoundError\<close> for a path that
  names no module, and passes on what a located module raises while it is executed;
  \<^verbatim>\<open>getattr\<close> raises \<^verbatim>\<open>AttributeError\<close> for a missing attribute.
\<close>

definition import_module ::
  "'p modules \<Rightarrow> string \<Rightarrow> error + (string \<rightharpoonup> 'p model_function)" where
  "import_module env path =
    (case env path of
       None \<Rightarrow> Inl (ModuleNotFoundError path)
     | Some (Inl e) \<Rightarrow> Inl e
     | Some (Inr m) \<Rightarrow> Inr m)"

definition getattr :: "(string \<rightharpoonup> 'p model_function) \<Rightarrow> string \<Rightarrow> error + 'p model_function" where
  "getattr m name = (case m name of None \<Rightarrow> Inl (AttributeError name) | Some f \<Rightarrow> Inr f)"

definition get_model_function :: "'p modules \<Rightarrow> string \<Rightarrow> error + 'p model_function" where
  "get_model_function env mt =
    (case import_module env (path_to_module mt) of
       Inl e \<Rightarrow> Inl e
     | Inr m \<Rightarrow> getattr m (model_name mt))"

text \<open>
  \<^verbatim>\<open>_build_output_dict\<close>. The model type is \<^verbatim>\<open>params['model']['type']\<close> when both
  keys are present and the default otherwise; only \<^verbatim>\<open>ModuleNotFoundError\<close> is
  caught; the arguments of the call, \<^verbatim>\<open>self._params['model']['params']\<close> among them,
  are evaluated after the function has been resolved.
\<close>

definition selected_model_type :: "'p builder \<Rightarrow> string" where
  "selected_model_type self =
    (case model (self_params self) of
       Some m \<Rightarrow> (case model_type m of Some t \<Rightarrow> t | None \<Rightarrow> DEFAULT_MODEL)
     | None \<Rightarrow> DEFAULT_MODEL)"

definition build_output_dict :: "'p modules \<Rightarrow> 'p builder \<Rightarrow> error + output_dict" where
  "build_output_dict env self =
    (case subscript (self_mix_name self @ ''_spectrogram'')
            (self_features self (self_mix_name self @ ''_spectrogram'')) of
       Inl e \<Rightarrow> Inl e
     | Inr input_tensor \<Rightarrow>
    (let mt = selected_model_type self in
     case (case get_model_function env mt of
             Inl (ModuleNotFoundError _) \<Rightarrow>
               Inl (ValueError (''No model function '' @ mt @ '' found''))
           | r \<Rightarrow> r) of
       Inl e \<Rightarrow> Inl e
     | Inr apply_model \<Rightarrow>
    (case subscript ''model'' (model (self_params self)) of
       Inl e \<Rightarrow> Inl e
     | Inr m \<Rightarrow>
    (case subscript ''params'' (model_params m) of
       Inl e \<Rightarrow> Inl e
     | Inr mp \<Rightarrow> Inr (apply_model input_tensor (self_instruments self) mp)))))"

subsection \<open>Loss\<close>

text \<open>
  The two per-instrument terms of \<^verbatim>\<open>_build_loss\<close>. \<^verbatim>\<open>labels[name]\<close> is looked up
  first in both.
\<close>

definition l1_term :: "(string \<rightharpoonup> real tensor4) \<Rightarrow> string \<Rightarrow> real tensor4 \<Rightarrow> error + real" where
  "l1_term labels name output =
    (case subscript name (labels name) of
       Inl e \<Rightarrow> Inl e
     | Inr lab \<Rightarrow>
    (case broadcast4 (-) output lab of
       Inl e \<Rightarrow> Inl e
     | Inr d \<Rightarrow> Inr (reduce_mean (tmap4 abs d))))"

definition weighted_l1_term ::
  "(string \<rightharpoonup> real tensor4) \<Rightarrow> string \<Rightarrow> real tensor4 \<Rightarrow> error + real" where
  "weighted_l1_term labels name output =
    (case subscript name (labels name) of
       Inl e \<Rightarrow> Inl e
     | Inr lab \<Rightarrow>
    (case broadcast4 (-) output lab of
       Inl e \<Rightarrow> Inl e
     | Inr d \<Rightarrow>
    (case broadcast4 (*) (reduce_mean_123 lab) (tmap4 abs d) of
       Inl e \<Rightarrow> Inl e
     | Inr w \<Rightarrow> Inr (reduce_mean w))))"

text \<open>A dictionary comprehension over the items of a dictionary, in insertion order.\<close>

fun dict_comprehension ::
  "(string \<Rightarrow> 'a \<Rightarrow> error + 'b) \<Rightarrow> (string \<times> 'a) list \<Rightarrow> error + (string \<times> 'b) list" where
  "dict_comprehension f [] = Inr []"
| "dict_comprehension f ((name, v) # rest) =
    (case f name v of
       Inl e \<Rightarrow> Inl e
     | Inr r \<Rightarrow>
    (case dict_comprehension f rest of
       Inl e \<Rightarrow> Inl e
     | Inr rs \<Rightarrow> Inr ((name, r) # rs)))"

definition selected_loss_type :: "'p builder \<Rightarrow> string" where
  "selected_loss_type self =
    (case loss_type (self_params self) of None \<Rightarrow> L1_MASK | Some t \<Rightarrow> t)"

definition build_losses ::
  "'p builder \<Rightarrow> output_dict \<Rightarrow> (string \<rightharpoonup> real tensor4) \<Rightarrow> error + (string \<times> real) list" where
  "build_losses self output_dict labels =
    (let lt = selected_loss_type self in
     if lt = L1_MASK then dict_comprehension (l1_term labels) output_dict
     else if lt = WEIGHTED_L1_MASK then dict_comprehension (weighted_l1_term labels) output_dict
     else Inl (ValueError (''Unknown loss type: '' @ lt)))"

text \<open>
  \<^verbatim>\<open>_build_loss\<close>: the loss is the sum of the per-instrument losses; the metrics are
  the per-instrument losses and the loss itself under \<^verbatim>\<open>absolute_difference\<close>.
\<close>

definition build_loss ::
  "'p builder \<Rightarrow> output_dict \<Rightarrow> (string \<rightharpoonup> real tensor4) \<Rightarrow>
     error + (real \<times> (string \<times> real) list)" where
  "build_loss self output_dict labels =
    (case build_losses self output_dict labels of
       Inl e \<Rightarrow> Inl e
     | Inr losses \<Rightarrow>
         (let loss = sum_list (map snd losses)
          in Inr (loss, AList.update ''absolute_difference'' loss losses)))"

subsection \<open>Ratio masks\<close>

text \<open>
  The mask arithmetic of \<^verbatim>\<open>_build_manual_output_waveform\<close> runs on float32 tensors
  and raises nothing: a power or a sum that overflows is \<open>inf\<close>, the quotients
  \<open>0 / 0\<close> and \<open>inf / inf\<close> are \<open>NaN\<close>, and a quotient that is too small is
  0. The model computes with exact reals and guards every tensor that the source
  computes: where an entry is neither 0 nor within the normal float32 range, or a
  power or a quotient is not defined, the model stops with \<open>FloatRange\<close>. That value
  is no exception of the program: it stands for a tensor with such entries, and what
  tensorflow goes on to compute from them is outside the model.
\<close>

definition FLT_MAX :: real where
  "FLT_MAX = (2 ^ 24 - 1) * 2 ^ 104"

definition FLT_MIN :: real where
  "FLT_MIN = 1 / 2 ^ 126"

definition float32_range :: "real \<Rightarrow> bool" where
  "float32_range v \<longleftrightarrow> v = 0 \<or> (FLT_MIN \<le> \<bar>v\<bar> \<and> \<bar>v\<bar> \<le> FLT_MAX)"

definition float32_cell :: "real option \<Rightarrow> bool" where
  "float32_cell v = (case v of None \<Rightarrow> False | Some r \<Rightarrow> float32_range r)"

definition float32 :: "string \<Rightarrow> real option tensor4 \<Rightarrow> error + real tensor4" where
  "float32 what x =
    (if (\<forall>b<dim0 x. \<forall>t<dim1 x. \<forall>k<dim2 x. \<forall>c<dim3 x. float32_cell (entry x b t k c))
     then Inr (tmap4 (\<lambda>v. case v of None \<Rightarrow> 0 | Some r \<Rightarrow> r) x)
     else Inl (FloatRange what))"

text \<open>
  \<^verbatim>\<open>x ** p\<close> on a float32 value and a number: a positive base takes any exponent;
  \<open>0 ** 0\<close> is 1, \<open>0 ** p\<close> is 0 for a positive \<open>p\<close> and \<open>inf\<close> for a negative one;
  a negative base takes whole exponents only, and gives \<open>NaN\<close> otherwise.
\<close>

definition float_pow :: "real \<Rightarrow> real \<Rightarrow> real" where
  "float_pow x p =
    (if 0 < x then x powr p
     else if x = 0 then (if p = 0 then 1 else 0)
     else x powi \<lfloor>p\<rfloor>)"

definition tf_pow :: "real \<Rightarrow> real \<Rightarrow> real option" where
  "tf_pow x p =
    (if 0 < x \<or> (x = 0 \<and> 0 \<le> p) \<or> (x < 0 \<and> real_of_int \<lfloor>p\<rfloor> = p)
     then Some (float_pow x p) else None)"

definition tf_div :: "real \<Rightarrow> real \<Rightarrow> real option" where
  "tf_div x y = (if y = 0 then None else Some (x / y))"

definition power_tensor :: "real tensor4 \<Rightarrow> real \<Rightarrow> error + real tensor4" where
  "power_tensor e p = float32 ''power'' (tmap4 (\<lambda>v. tf_pow v p) e)"

text \<open>The list comprehension \<^verbatim>\<open>[e ** separation_exponent for e in output_dict.values()]\<close>.\<close>

fun power_tensors :: "real \<Rightarrow> real tensor4 list \<Rightarrow> error + real tensor4 list" where
  "power_tensors p [] = Inr []"
| "power_tensors p (e # es) =
    (case power_tensor e p of
       Inl err \<Rightarrow> Inl err
     | Inr x \<Rightarrow>
    (case power_tensors p es of
       Inl err \<Rightarrow> Inl err
     | Inr xs \<Rightarrow> Inr (x # xs)))"

text \<open>
  The first lines of \<^verbatim>\<open>_build_manual_output_waveform\<close>: the sum over the values of
  the output dictionary of their powers, plus \<open>EPSILON\<close>; and, inside the loop over
  the instruments, the mask of one instrument from its output.
\<close>

definition output_sum :: "real \<Rightarrow> output_dict \<Rightarrow> error + real tensor4" where
  "output_sum p output_dict =
    (case power_tensors p (map snd output_dict) of
       Inl e \<Rightarrow> Inl e
     | Inr powers \<Rightarrow>
    (case reduce_sum_axis0 powers of
       Inl e \<Rightarrow> Inl e
     | Inr s \<Rightarrow> float32 ''sum'' (tmap4 (\<lambda>v. Some (v + EPSILON)) s)))"

definition instrument_mask ::
  "real \<Rightarrow> output_dict \<Rightarrow> real tensor4 \<Rightarrow> real tensor4 \<Rightarrow> error + real tensor4" where
  "instrument_mask p output_dict osum output =
    (if length output_dict = 0 then Inl ZeroDivisionError
     else
    (case power_tensor output p of
       Inl e \<Rightarrow> Inl e
     | Inr pw \<Rightarrow>
    (case float32 ''numerator''
            (tmap4 (\<lambda>v. Some (v + EPSILON / real (length output_dict))) pw) of
       Inl e \<Rightarrow> Inl e
     | Inr num \<Rightarrow>
    (case broadcast4 tf_div num osum of
       Inl e \<Rightarrow> Inl e
     | Inr q \<Rightarrow> float32 ''mask'' q))))"

subsection \<open>Mask extension\<close>

text \<open>\<^verbatim>\<open>_extend_mask\<close>.\<close>

definition extend_mask :: "'p builder \<Rightarrow> real tensor4 \<Rightarrow> error + real tensor4" where
  "extend_mask self msk =
    (case subscript ''mask_extension'' (mask_extension (self_params self)) of
       Inl e \<Rightarrow> Inl e
     | Inr extension \<Rightarrow>
    (case (if extension = ''average'' then Inr (reduce_mean_2 msk)
           else if extension = ''zeros'' then Inr (zeros (dim0 msk) (dim1 msk) 1 (dim3 msk))
           else Inl (ValueError (''Invalid mask_extension parameter '' @ extension))) of
       Inl e \<Rightarrow> Inl e
     | Inr extension_row \<Rightarrow>
    (let n_extra_row = self_frame_length self div 2 + 1 - self_F self in
     case tile_axis2 extension_row n_extra_row of
       Inl e \<Rightarrow> Inl e
     | Inr ext \<Rightarrow> concat_axis2 msk ext)))"

subsection \<open>Operations on tensors of rank 2 and 3\<close>

definition tmap3 :: "('a \<Rightarrow> 'b) \<Rightarrow> 'a tensor3 \<Rightarrow> 'b tensor3" where
  "tmap3 f x =
    \<lparr> len0 = len0 x, len1 = len1 x, len2 = len2 x, entry3 = (\<lambda>a b c. f (entry3 x a b c)) \<rparr>"

definition tmap2 :: "('a \<Rightarrow> 'b) \<Rightarrow> 'a tensor2 \<Rightarrow> 'b tensor2" where
  "tmap2 f x = \<lparr> rows = rows x, cols = cols x, entry2 = (\<lambda>i j. f (entry2 x i j)) \<rparr>"

text \<open>
  \<^verbatim>\<open>tf.transpose(x)\<close> of a matrix, \<^verbatim>\<open>tf.transpose(x, perm=[1, 2, 0])\<close> and
  \<^verbatim>\<open>tf.transpose(x, perm=[2, 0, 1])\<close>: axis \<open>j\<close> of the result is axis \<open>perm[j]\<close>
  of the argument.
\<close>

definition transpose2 :: "'a tensor2 \<Rightarrow> 'a tensor2" where
  "transpose2 x = \<lparr> rows = cols x, cols = rows x, entry2 = (\<lambda>i j. entry2 x j i) \<rparr>"

definition transpose_120 :: "'a tensor3 \<Rightarrow> 'a tensor3" where
  "transpose_120 x =
    \<lparr> len0 = len1 x, len1 = len2 x, len2 = len0 x, entry3 = (\<lambda>a b c. entry3 x c a b) \<rparr>"

definition transpose_201 :: "'a tensor3 \<Rightarrow> 'a tensor3" where
  "transpose_201 x =
    \<lparr> len0 = len2 x, len1 = len0 x, len2 = len1 x, entry3 = (\<lambda>a b c. entry3 x b c a) \<rparr>"

text \<open>
  The length of the Python slice \<^verbatim>\<open>x[:n]\<close> of a sequence of length \<open>d\<close>, and the
  slices \<^verbatim>\<open>x[:, :, :n, :]\<close>, \<^verbatim>\<open>x[:n, ...]\<close> and \<^verbatim>\<open>x[:n, :]\<close>. A slice never
  lengthens its argument.
\<close>

definition slice_stop :: "int \<Rightarrow> nat \<Rightarrow> nat" where
  "slice_stop n d = (if 0 \<le> n then min (nat n) d else d - nat (- n))"

definition slice_axis2 :: "'a tensor4 \<Rightarrow> int \<Rightarrow> 'a tensor4" where
  "slice_axis2 x n = x\<lparr>dim2 := slice_stop n (dim2 x)\<rparr>"

definition slice_rows3 :: "'a tensor3 \<Rightarrow> nat \<Rightarrow> 'a tensor3" where
  "slice_rows3 x n = x\<lparr>len0 := min n (len0 x)\<rparr>"

definition slice_rows :: "'a tensor2 \<Rightarrow> nat \<Rightarrow> 'a tensor2" where
  "slice_rows x n = x\<lparr>rows := min n (rows x)\<rparr>"

text \<open>
  \<^verbatim>\<open>tf.reshape\<close> of a tensor of shape (b, t, w, c) to (b * t, w, c), a broadcasting
  binary operation on tensors of rank 3, \<^verbatim>\<open>tf.stack(list, axis=3)\<close> of tensors of
  rank 3 (which need one shape) and the slice \<^verbatim>\<open>x[:, :, :, k]\<close>.
\<close>

definition merge_axes01 :: "'a tensor4 \<Rightarrow> 'a tensor3" where
  "merge_axes01 x =
    \<lparr> len0 = dim0 x * dim1 x, len1 = dim2 x, len2 = dim3 x,
      entry3 = (\<lambda>i w c. entry x (i div dim1 x) (i mod dim1 x) w c) \<rparr>"

definition broadcast3 ::
  "('a \<Rightarrow> 'b \<Rightarrow> 'c) \<Rightarrow> 'a tensor3 \<Rightarrow> 'b tensor3 \<Rightarrow> error + 'c tensor3" where
  "broadcast3 f x y =
    (case (broadcast_dim (len0 x) (len0 y), broadcast_dim (len1 x) (len1 y),
           broadcast_dim (len2 x) (len2 y)) of
       (Some d0, Some d1, Some d2) \<Rightarrow>
         Inr \<lparr> len0 = d0, len1 = d1, len2 = d2,
               entry3 = (\<lambda>a b c.
                 f (entry3 x (bidx (len0 x) a) (bidx (len1 x) b) (bidx (len2 x) c))
                   (entry3 y (bidx (len0 y) a) (bidx (len1 y) b) (bidx (len2 y) c))) \<rparr>
     | _ \<Rightarrow> Inl (InvalidArgumentError ''Incompatible shapes''))"

definition stack_axis3 :: "'a tensor3 list \<Rightarrow> error + 'a tensor4" where
  "stack_axis3 ts =
    (case ts of
       [] \<Rightarrow> Inl (ValueError ''stack of an empty list'')
     | x # xs \<Rightarrow>
         if list_all (\<lambda>y. len0 y = len0 x \<and> len1 y = len1 x \<and> len2 y = len2 x) xs
         then Inr \<lparr> dim0 = len0 x, dim1 = len1 x, dim2 = len2 x, dim3 = length ts,
                    entry = (\<lambda>a b c k. entry3 (ts ! k) a b c) \<rparr>
         else Inl (InvalidArgumentError ''Shapes of all inputs must match''))"

definition index_axis3 :: "'a tensor4 \<Rightarrow> nat \<Rightarrow> error + 'a tensor3" where
  "index_axis3 x k =
    (if k < dim3 x
     then Inr \<lparr> len0 = dim0 x, len1 = dim1 x, len2 = dim2 x,
                entry3 = (\<lambda>a b c. entry x a b c k) \<rparr>
     else Inl (InvalidArgumentError ''slice index out of bounds''))"

subsection \<open>Signal processing of tensorflow\<close>

text \<open>
  The functions of \<^verbatim>\<open>tensorflow.contrib.signal\<close> that the module calls, after their
  documentation, in exact arithmetic. \<^verbatim>\<open>hann_window(n, periodic=True)\<close> is
  \<open>1/2 - 1/2 cos (2 pi j / n)\<close> for an even \<open>n\<close>, has \<open>n - 1\<close> in the place of \<open>n\<close>
  for an odd one (the window is periodic for even lengths only), and is 1 for
  \<open>n = 1\<close>. The FFT length defaults to the smallest power of two that is at least
  the frame length.
\<close>

definition hann_window :: "nat \<Rightarrow> nat \<Rightarrow> real" where
  "hann_window n j =
    (if n = 1 then 1
     else 1 / 2 - 1 / 2 * cos (2 * pi * real j / real (if even n then n else n - 1)))"

function next_power_of_two :: "nat \<Rightarrow> nat \<Rightarrow> nat" where
  "next_power_of_two p n = (if p = 0 \<or> n \<le> p then p else next_power_of_two (2 * p) n)"
  by pat_completeness auto
termination
  by (relation "measure (\<lambda>(p, n). n - p)") auto

definition enclosing_power_of_two :: "nat \<Rightarrow> nat" where
  "enclosing_power_of_two n = next_power_of_two 1 n"

text \<open>
  \<^verbatim>\<open>stft(signals, frame_length, frame_step, window_fn, pad_end=True)\<close> on signals of
  shape (channel, sample): with \<^verbatim>\<open>pad_end\<close> there are \<open>\<lceil>samples / frame_step\<rceil>\<close>
  frames, the signal is read as 0 past its end, and each windowed frame is
  transformed to \<open>fft_length div 2 + 1\<close> frequency bins.
\<close>

definition stft :: "real tensor2 \<Rightarrow> int \<Rightarrow> int \<Rightarrow> error + complex tensor3" where
  "stft signals flen fstep =
    (if flen \<le> 0 \<or> fstep \<le> 0
     then Inl (InvalidArgumentError ''frame_length and frame_step must be positive'')
     else
       (let l = nat flen; s = nat fstep; n = enclosing_power_of_two l
        in Inr \<lparr> len0 = rows signals, len1 = (cols signals + s - 1) div s, len2 = n div 2 + 1,
             entry3 = (\<lambda>c f k. \<Sum>j<l.
               complex_of_real
                 ((if f * s + j < cols signals then entry2 signals c (f * s + j) else 0)
                    * hann_window l j)
               * cis (- (2 * pi * real k * real j / real n))) \<rparr>))"

text \<open>
  The inverse real FFT of length \<open>n\<close> of \<open>m\<close> given bins: bins past \<open>m\<close> are read
  as 0, and the upper half of the spectrum is the conjugate mirror of the lower half.
\<close>

definition irfft :: "(nat \<Rightarrow> complex) \<Rightarrow> nat \<Rightarrow> nat \<Rightarrow> nat \<Rightarrow> real" where
  "irfft x m n j =
    Re (\<Sum>k<n.
      (if k \<le> n div 2 then (if k < m then x k else 0)
       else cnj (if n - k < m then x (n - k) else 0))
      * cis (2 * pi * real k * real j / real n)) / real n"

text \<open>
  \<^verbatim>\<open>inverse_stft(stfts, frame_length, frame_step, window_fn)\<close> on a tensor of shape
  (channel, frame, bin): every frame is transformed back and cut to \<open>frame_length\<close>
  samples, multiplied by the window, and the frames are added with an offset of
  \<open>frame_step\<close> between them (overlap-add), which gives
  \<open>frame_length + frame_step * (frames - 1)\<close> samples.
\<close>

definition inverse_stft :: "complex tensor3 \<Rightarrow> int \<Rightarrow> int \<Rightarrow> error + real tensor2" where
  "inverse_stft stfts flen fstep =
    (if flen \<le> 0 \<or> fstep \<le> 0
     then Inl (InvalidArgumentError ''frame_length and frame_step must be positive'')
     else
       (let l = nat flen; s = nat fstep; n = enclosing_power_of_two l
        in Inr \<lparr> rows = len0 stfts,
             cols = nat (flen + fstep * (int (len1 stfts) - 1)),
             entry2 = (\<lambda>c i. \<Sum>f<len1 stfts.
               if f * s \<le> i \<and> i < f * s + l
               then irfft (entry3 stfts c f) (len2 stfts) n (i - f * s) * hann_window l (i - f * s)
               else 0) \<rparr>))"

subsection \<open>External collaborators\<close>

text \<open>
  The helpers \<^verbatim>\<open>pad_and_partition\<close> and \<^verbatim>\<open>pad_and_reshape\<close> of
  \<^verbatim>\<open>spleeter.utils.tensor\<close> and the Wiener filter of \<^verbatim>\<open>norbert\<close> are not part of
  this module: they are parameters, together with the importable modules.
\<close>

record 'p env =
  modules :: "'p modules"
  pad_and_partition :: "complex tensor3 \<Rightarrow> int \<Rightarrow> complex tensor4"
  pad_and_reshape :: "real tensor4 \<Rightarrow> int \<Rightarrow> int \<Rightarrow> real tensor3"
  wiener :: "real tensor4 \<Rightarrow> complex tensor3 \<Rightarrow> complex tensor4"

subsection \<open>Forward and inverse transform\<close>

definition get_waveform :: "'p builder \<Rightarrow> error + real tensor2" where
  "get_waveform self =
    (case subscript ''waveform'' (self_features self ''waveform'') of
       Inl e \<Rightarrow> Inl e
     | Inr (Waveform w) \<Rightarrow> Inr w
     | Inr _ \<Rightarrow> Inl (TypeError ''waveform''))"

definition get_stft :: "'p builder \<Rightarrow> error + complex tensor3" where
  "get_stft self =
    (case subscript (self_mix_name self @ ''_stft'')
            (self_features self (self_mix_name self @ ''_stft'')) of
       Inl e \<Rightarrow> Inl e
     | Inr (Stft x) \<Rightarrow> Inr x
     | Inr _ \<Rightarrow> Inl (TypeError (self_mix_name self @ ''_stft'')))"

text \<open>\<^verbatim>\<open>_build_stft_feature\<close>: it adds two features to the builder.\<close>

definition build_stft_feature :: "'p env \<Rightarrow> 'p builder \<Rightarrow> error + 'p builder" where
  "build_stft_feature env self =
    (case get_waveform self of
       Inl e \<Rightarrow> Inl e
     | Inr w \<Rightarrow>
    (case stft (transpose2 w) (self_frame_length self) (self_frame_step self) of
       Inl e \<Rightarrow> Inl e
     | Inr st \<Rightarrow>
         (let stft_feature = transpose_120 st;
              spectrogram =
                slice_axis2 (tmap4 cmod (pad_and_partition env stft_feature (self_T self)))
                  (self_F self)
          in Inr (self\<lparr>self_features :=
               ((self_features self)(self_mix_name self @ ''_stft'' \<mapsto> Stft stft_feature))
                 (self_mix_name self @ ''_spectrogram'' \<mapsto> Spectrogram spectrogram)\<rparr>))))"

text \<open>
  \<^verbatim>\<open>_inverse_stft\<close>: the inverse transform with the periodic Hann window, times
  \<open>WINDOW_COMPENSATION_FACTOR\<close>, transposed to (sample, channel) and sliced to at
  most the number of samples of the input waveform.
\<close>

definition inverse_stft_method :: "'p builder \<Rightarrow> complex tensor3 \<Rightarrow> error + real tensor2" where
  "inverse_stft_method self x =
    (case inverse_stft (transpose_201 x) (self_frame_length self) (self_frame_step self) of
       Inl e \<Rightarrow> Inl e
     | Inr inversed0 \<Rightarrow>
         (let inversed = tmap2 (\<lambda>v. v * WINDOW_COMPENSATION_FACTOR) inversed0;
              reshaped = transpose2 inversed
          in case get_waveform self of
               Inl e \<Rightarrow> Inl e
             | Inr w \<Rightarrow> Inr (slice_rows reshaped (rows w))))"

subsection \<open>Waveform reconstruction\<close>

text \<open>
  The predictions of the estimator: waveforms by instrument name, in insertion order,
  and the \<^verbatim>\<open>audio_id\<close> feature when there is one.
\<close>

type_synonym output_waveform = "(string \<times> feature) list"

text \<open>
  The body of the loop of \<^verbatim>\<open>_build_manual_output_waveform\<close>, for one instrument:
  the mask; then its extension, the reshape to (frame, bin, channel), the cut to the
  number of frames of the mixture STFT, the product with the mixture STFT and the
  inverse transform.
\<close>

definition masked_waveform :: "'p builder \<Rightarrow> real tensor4 \<Rightarrow> error + real tensor2" where
  "masked_waveform self msk =
    (case extend_mask self msk of
       Inl e \<Rightarrow> Inl e
     | Inr extended \<Rightarrow>
    (case get_stft self of
       Inl e \<Rightarrow> Inl e
     | Inr stft_feature \<Rightarrow>
    (case broadcast3 (*)
            (tmap3 complex_of_real (slice_rows3 (merge_axes01 extended) (len0 stft_feature)))
            stft_feature of
       Inl e \<Rightarrow> Inl e
     | Inr masked \<Rightarrow> inverse_stft_method self masked)))"

definition manual_instrument_waveform ::
  "'p builder \<Rightarrow> real \<Rightarrow> output_dict \<Rightarrow> real tensor4 \<Rightarrow> string \<Rightarrow> error + real tensor2" where
  "manual_instrument_waveform self p output_dict osum instrument =
    (case subscript (instrument @ ''_spectrogram'')
            (map_of output_dict (instrument @ ''_spectrogram'')) of
       Inl e \<Rightarrow> Inl e
     | Inr output \<Rightarrow>
    (case instrument_mask p output_dict osum output of
       Inl e \<Rightarrow> Inl e
     | Inr msk \<Rightarrow> masked_waveform self msk))"

fun manual_loop ::
  "'p builder \<Rightarrow> real \<Rightarrow> output_dict \<Rightarrow> real tensor4 \<Rightarrow> string list \<Rightarrow> output_waveform \<Rightarrow>
     error + output_waveform" where
  "manual_loop self p output_dict osum [] acc = Inr acc"
| "manual_loop self p output_dict osum (instrument # rest) acc =
    (case manual_instrument_waveform self p output_dict osum instrument of
       Inl e \<Rightarrow> Inl e
     | Inr w \<Rightarrow>
         manual_loop self p output_dict osum rest (AList.update instrument (Waveform w) acc))"

definition build_manual_output_waveform ::
  "'p builder \<Rightarrow> output_dict \<Rightarrow> error + output_waveform" where
  "build_manual_output_waveform self output_dict =
    (case subscript ''separation_exponent'' (separation_exponent (self_params self)) of
       Inl e \<Rightarrow> Inl e
     | Inr p \<Rightarrow>
    (case output_sum p output_dict of
       Inl e \<Rightarrow> Inl e
     | Inr osum \<Rightarrow> manual_loop self p output_dict osum (self_instruments self) []))"

text \<open>
  \<^verbatim>\<open>_build_mwf_output_waveform\<close>: the estimates of all instruments are reshaped, cut
  to the frames of the mixture STFT and stacked; the Wiener filter returns one STFT per
  instrument, which is inverted.
\<close>

fun mwf_estimates ::
  "'p env \<Rightarrow> 'p builder \<Rightarrow> output_dict \<Rightarrow> nat \<Rightarrow> string list \<Rightarrow> error + real tensor3 list" where
  "mwf_estimates env self output_dict n [] = Inr []"
| "mwf_estimates env self output_dict n (instrument # rest) =
    (case subscript (instrument @ ''_spectrogram'')
            (map_of output_dict (instrument @ ''_spectrogram'')) of
       Inl e \<Rightarrow> Inl e
     | Inr output \<Rightarrow>
    (case mwf_estimates env self output_dict n rest of
       Inl e \<Rightarrow> Inl e
     | Inr vs \<Rightarrow>
         Inr (slice_rows3 (pad_and_reshape env output (self_frame_length self) (self_F self)) n
              # vs)))"

fun mwf_loop ::
  "'p builder \<Rightarrow> complex tensor4 \<Rightarrow> nat \<Rightarrow> string list \<Rightarrow> output_waveform \<Rightarrow>
     error + output_waveform" where
  "mwf_loop self stft_function k [] acc = Inr acc"
| "mwf_loop self stft_function k (instrument # rest) acc =
    (case index_axis3 stft_function k of
       Inl e \<Rightarrow> Inl e
     | Inr x \<Rightarrow>
    (case inverse_stft_method self x of
       Inl e \<Rightarrow> Inl e
     | Inr w \<Rightarrow>
         mwf_loop self stft_function (Suc k) rest (AList.update instrument (Waveform w) acc)))"

definition build_mwf_output_waveform ::
  "'p env \<Rightarrow> 'p builder \<Rightarrow> output_dict \<Rightarrow> error + output_waveform" where
  "build_mwf_output_waveform env self output_dict =
    (case get_stft self of
       Inl e \<Rightarrow> Inl e
     | Inr x \<Rightarrow>
    (case mwf_estimates env self output_dict (len0 x) (self_instruments self) of
       Inl e \<Rightarrow> Inl e
     | Inr vs \<Rightarrow>
    (case stack_axis3 vs of
       Inl e \<Rightarrow> Inl e
     | Inr v \<Rightarrow> mwf_loop self (wiener env v x) 0 (self_instruments self) [])))"

text \<open>\<^verbatim>\<open>_build_output_waveform\<close>.\<close>

definition build_output_waveform ::
  "'p env \<Rightarrow> 'p builder \<Rightarrow> output_dict \<Rightarrow> error + output_waveform" where
  "build_output_waveform env self output_dict =
    (case (if MWF (self_params self) = Some True
           then build_mwf_output_waveform env self output_dict
           else build_manual_output_waveform self output_dict) of
       Inl e \<Rightarrow> Inl e
     | Inr output_waveform \<Rightarrow>
         (case self_features self ''audio_id'' of
            None \<Rightarrow> Inr output_waveform
          | Some a \<Rightarrow> Inr (AList.update ''audio_id'' a output_waveform)))"

subsection \<open>Estimator specifications\<close>

datatype train_operation = Minimize optimizer_instance real

record estimator_spec =
  spec_mode :: string
  spec_predictions :: "output_waveform option"
  spec_loss :: "real option"
  spec_train_op :: "train_operation option"
  spec_eval_metric_ops :: "(string \<times> real) list option"

text \<open>The values of \<^verbatim>\<open>tf.estimator.ModeKeys\<close>.\<close>

definition PREDICT :: string where
  "PREDICT = ''infer''"

definition EVAL :: string where
  "EVAL = ''eval''"

definition TRAIN :: string where
  "TRAIN = ''train''"

definition build_predict_model :: "'p env \<Rightarrow> 'p builder \<Rightarrow> error + estimator_spec" where
  "build_predict_model env self =
    (case build_stft_feature env self of
       Inl e \<Rightarrow> Inl e
     | Inr self1 \<Rightarrow>
    (case build_output_dict (modules env) self1 of
       Inl e \<Rightarrow> Inl e
     | Inr output_dict \<Rightarrow>
    (case build_output_waveform env self1 output_dict of
       Inl e \<Rightarrow> Inl e
     | Inr output_waveform \<Rightarrow>
         Inr \<lparr> spec_mode = PREDICT, spec_predictions = Some output_waveform,
               spec_loss = None, spec_train_op = None, spec_eval_metric_ops = None \<rparr>)))"

definition build_evaluation_model ::
  "'p env \<Rightarrow> 'p builder \<Rightarrow> (string \<rightharpoonup> real tensor4) \<Rightarrow> error + estimator_spec" where
  "build_evaluation_model env self labels =
    (case build_output_dict (modules env) self of
       Inl e \<Rightarrow> Inl e
     | Inr output_dict \<Rightarrow>
    (case build_loss self output_dict labels of
       Inl e \<Rightarrow> Inl e
     | Inr (loss, metrics) \<Rightarrow>
         Inr \<lparr> spec_mode = EVAL, spec_predictions = None, spec_loss = Some loss,
               spec_train_op = None, spec_eval_metric_ops = Some metrics \<rparr>))"

definition build_train_model ::
  "'p env \<Rightarrow> 'p builder \<Rightarrow> (string \<rightharpoonup> real tensor4) \<Rightarrow> error + estimator_spec" where
  "build_train_model env self labels =
    (case build_output_dict (modules env) self of
       Inl e \<Rightarrow> Inl e
     | Inr output_dict \<Rightarrow>
    (case build_loss self output_dict labels of
       Inl e \<Rightarrow> Inl e
     | Inr (loss, metrics) \<Rightarrow>
    (case build_optimizer self of
       Inl e \<Rightarrow> Inl e
     | Inr opt \<Rightarrow>
         Inr \<lparr> spec_mode = TRAIN, spec_predictions = None, spec_loss = Some loss,
               spec_train_op = Some (Minimize opt loss),
               spec_eval_metric_ops = Some metrics \<rparr>)))"

text \<open>
  \<^verbatim>\<open>model_fn\<close>: the builder is constructed, which reads the required parameters, and
  the mode selects the build method. The \<^verbatim>\<open>config\<close> argument is not used.
\<close>

definition model_fn ::
  "'p env \<Rightarrow> (string \<rightharpoonup> feature) \<Rightarrow> (string \<rightharpoonup> real tensor4) \<Rightarrow> string \<Rightarrow> 'p params \<Rightarrow>
     error + estimator_spec" where
  "model_fn env features labels mode ps =
    (case init features ps of
       Inl e \<Rightarrow> Inl e
     | Inr builder \<Rightarrow>
         if mode = PREDICT then build_predict_model env builder
         else if mode = EVAL then build_evaluation_model env builder labels
         else if mode = TRAIN then build_train_model env builder labels
         else Inl (ValueError (''Unknown mode '' @ mode)))"

subsection \<open>A sample configuration\<close>

text \<open>A small two-instrument configuration, used to instantiate the theorems below.\<close>

definition sample_params :: "unit params" where
  "sample_params =
    \<lparr> mix_name = Some ''mix'', instrument_list = Some [''vocals'', ''drums''],
      n_channels = Some 1, key_T = Some 1, key_F = Some 2, frame_length = Some 4,
      frame_step = Some 1,
      model = Some \<lparr> model_type = Some ''unet.unet'', model_params = Some () \<rparr>,
      loss_type = None, optimizer = None, learning_rate = Some (1 / 1000), MWF = None,
      mask_extension = Some ''zeros'', separation_exponent = Some 2 \<rparr>"

definition sample_builder :: "(string \<rightharpoonup> feature) \<Rightarrow> unit params \<Rightarrow> unit builder" where
  "sample_builder features ps =
    \<lparr> self_features = features, self_params = ps, self_mix_name = ''mix'',
      self_instruments = [''vocals'', ''drums''], self_n_channels = 1, self_T = 1,
      self_F = 2, self_frame_length = 4, self_frame_step = 1 \<rparr>"

definition sample_vocals :: "real tensor4" where
  "sample_vocals =
    \<lparr> dim0 = 1, dim1 = 1, dim2 = 2, dim3 = 1,
      entry = (\<lambda>b t k c. if k = 0 then 3 else 0) \<rparr>"

definition sample_drums :: "real tensor4" where
  "sample_drums =
    \<lparr> dim0 = 1, dim1 = 1, dim2 = 2, dim3 = 1,
      entry = (\<lambda>b t k c. if k = 0 then 1 else 0) \<rparr>"

definition sample_output_dict :: output_dict where
  "sample_output_dict =
    [(''vocals_spectrogram'', sample_vocals), (''drums_spectrogram'', sample_drums)]"

text \<open>
  A model function that returns its input for every instrument, a module holding it,
  and a module that is located and whose own import of another module fails.
\<close>

definition sample_unet :: "unit model_function" where
  "sample_unet x instruments mp =
    map (\<lambda>i. (i @ ''_spectrogram'',
               (case x of Spectrogram t \<Rightarrow> t | _ \<Rightarrow> zeros 0 0 0 0))) instruments"

definition sample_modules :: "unit modules" where
  "sample_modules =
    [''spleeter.model.functions.unet'' \<mapsto> Inr [''unet'' \<mapsto> sample_unet],
     ''spleeter.model.functions.blstm'' \<mapsto> Inl (ModuleNotFoundError ''tensorflow.contrib.rnn'')]"

definition sample_features :: "string \<rightharpoonup> feature" where
  "sample_features = [''mix_spectrogram'' \<mapsto> Spectrogram sample_vocals]"

text \<open>
  Stand-ins for the external collaborators: \<^verbatim>\<open>pad_and_partition\<close> pads the frames
  with zeros to a multiple of the segment length and partitions them.
\<close>

definition sample_env :: "unit env" where
  "sample_env =
    \<lparr> modules = sample_modules,
      pad_and_partition = (\<lambda>x t.
        \<lparr> dim0 = (len0 x + nat t - 1) div nat t, dim1 = nat t, dim2 = len1 x, dim3 = len2 x,
          entry = (\<lambda>s i k c. if s * nat t + i < len0 x then entry3 x (s * nat t + i) k c else 0) \<rparr>),
      pad_and_reshape = (\<lambda>x l f. merge_axes01 x),
      wiener = (\<lambda>v x.
        \<lparr> dim0 = len0 x, dim1 = len1 x, dim2 = len2 x, dim3 = dim3 v,
          entry = (\<lambda>a b c k. entry3 x a b c) \<rparr>) \<rparr>"






text \<open>A stereo waveform of three samples and a mono waveform of eight samples.\<close>

definition sample_stereo :: "real tensor2" where
  "sample_stereo = \<lparr> rows = 3, cols = 2, entry2 = (\<lambda>i c. real (i + c)) \<rparr>"

definition sample_long :: "real tensor2" where
  "sample_long = \<lparr> rows = 8, cols = 1, entry2 = (\<lambda>i c. 1) \<rparr>"

section \<open>Properties\<close>

subsection \<open>Tensor lemmas\<close>















subsection \<open>Loss\<close>



subsection \<open>Ratio masks\<close>






































subsection \<open>Mask extension\<close>

text \<open>
  C3. For a mask whose frequency width is \<open>F\<close>, with \<open>F \<le> frame_length div 2 + 1\<close>:
  under \<^verbatim>\<open>average\<close> (and \<open>F > 0\<close>) every extra bin of the extended mask holds the mean
  over the \<open>F\<close> computed bins of its time frame and channel; under \<^verbatim>\<open>zeros\<close> every
  extra bin is 0; in both cases the width of the extended mask is
  \<open>frame_length div 2 + 1\<close> and its first \<open>F\<close> bins are the mask's. For any other
  value of \<^verbatim>\<open>mask_extension\<close>, \<^verbatim>\<open>_extend_mask\<close> raises the \<^verbatim>\<open>ValueError\<close>
  "Invalid mask_extension parameter ...", the spec's UnsupportedMaskExtensionError.
\<close>

theorem extend_mask_policies:
  "(mask_extension (self_params self) = Some ''average'' \<and> int (dim2 msk) = self_F self \<and>
    0 < dim2 msk \<and> self_F self \<le> self_frame_length self div 2 + 1 \<longrightarrow>
      (\<exists>ext. extend_mask self msk = Inr ext \<and>
         dim0 ext = dim0 msk \<and> dim1 ext = dim1 msk \<and> dim3 ext = dim3 msk \<and>
         int (dim2 ext) = self_frame_length self div 2 + 1 \<and>
         (\<forall>b t k c. k < dim2 msk \<longrightarrow> entry ext b t k c = entry msk b t k c) \<and>
         (\<forall>b t k c. dim2 msk \<le> k \<and> k < dim2 ext \<longrightarrow>
            entry ext b t k c = (\<Sum>j<dim2 msk. entry msk b t j c) / real (dim2 msk)))) \<and>
   (mask_extension (self_params self) = Some ''zeros'' \<and> int (dim2 msk) = self_F self \<and>
    self_F self \<le> self_frame_length self div 2 + 1 \<longrightarrow>
      (\<exists>ext. extend_mask self msk = Inr ext \<and>
         dim0 ext = dim0 msk \<and> dim1 ext = dim1 msk \<and> dim3 ext = dim3 msk \<and>
         int (dim2 ext) = self_frame_length self div 2 + 1 \<and>
         (\<forall>b t k c. k < dim2 msk \<longrightarrow> entry ext b t k c = entry msk b t k c) \<and>
         (\<forall>b t k c. dim2 msk \<le> k \<and> k < dim2 ext \<longrightarrow> entry ext b t k c = 0))) \<and>
   (mask_extension (self_params self) = Some e \<and> e \<noteq> ''average'' \<and> e \<noteq> ''zeros'' \<longrightarrow>
      extend_mask self msk = Inl (ValueError (''Invalid mask_extension parameter '' @ e)))"
proof (intro conjI impI)
  assume a: "mask_extension (self_params self) = Some ''average'' \<and> int (dim2 msk) = self_F self \<and>
    0 < dim2 msk \<and> self_F self \<le> self_frame_length self div 2 + 1"
  then have n: "\<not> self_frame_length self div 2 + 1 - self_F self < 0" by simp
  let ?ext = "\<lparr> dim0 = dim0 msk, dim1 = dim1 msk,
      dim2 = dim2 msk + nat (self_frame_length self div 2 + 1 - self_F self), dim3 = dim3 msk,
      entry = (\<lambda>b t k c. if k < dim2 msk then entry msk b t k c
         else (\<Sum>j<dim2 msk. entry msk b t j c) / real (dim2 msk)) \<rparr>"
  have "extend_mask self msk = Inr ?ext"
    using a n
    by (simp add: extend_mask_def subscript_def reduce_mean_2_def tile_axis2_def
        concat_axis2_def Let_def fun_eq_iff)
  moreover have "int (dim2 ?ext) = self_frame_length self div 2 + 1"
    using a by simp
  ultimately show "\<exists>ext. extend_mask self msk = Inr ext \<and>
         dim0 ext = dim0 msk \<and> dim1 ext = dim1 msk \<and> dim3 ext = dim3 msk \<and>
         int (dim2 ext) = self_frame_length self div 2 + 1 \<and>
         (\<forall>b t k c. k < dim2 msk \<longrightarrow> entry ext b t k c = entry msk b t k c) \<and>
         (\<forall>b t k c. dim2 msk \<le> k \<and> k < dim2 ext \<longrightarrow>
            entry ext b t k c = (\<Sum>j<dim2 msk. entry msk b t j c) / real (dim2 msk))"
    by (intro exI [of _ ?ext]) simp
next
  assume a: "mask_extension (self_params self) = Some ''zeros'' \<and> int (dim2 msk) = self_F self \<and>
    self_F self \<le> self_frame_length self div 2 + 1"
  then have n: "\<not> self_frame_length self div 2 + 1 - self_F self < 0" by simp
  let ?ext = "\<lparr> dim0 = dim0 msk, dim1 = dim1 msk,
      dim2 = dim2 msk + nat (self_frame_length self div 2 + 1 - self_F self), dim3 = dim3 msk,
      entry = (\<lambda>b t k c. if k < dim2 msk then entry msk b t k c else 0) \<rparr>"
  have "extend_mask self msk = Inr ?ext"
    using a n
    by (simp add: extend_mask_def subscript_def zeros_def tile_axis2_def
        concat_axis2_def Let_def fun_eq_iff)
  moreover have "int (dim2 ?ext) = self_frame_length self div 2 + 1"
    using a by simp
  ultimately show "\<exists>ext. extend_mask self msk = Inr ext \<and>
         dim0 ext = dim0 msk \<and> dim1 ext = dim1 msk \<and> dim3 ext = dim3 msk \<and>
         int (dim2 ext) = self_frame_length self div 2 + 1 \<and>
         (\<forall>b t k c. k < dim2 msk \<longrightarrow> entry ext b t k c = entry msk b t k c) \<and>
         (\<forall>b t k c. dim2 msk \<le> k \<and> k < dim2 ext \<longrightarrow> entry ext b t k c = 0)"
    by (intro exI [of _ ?ext]) simp
next
  assume "mask_extension (self_params self) = Some e \<and> e \<noteq> ''average'' \<and> e \<noteq> ''zeros''"
  then show "extend_mask self msk = Inl (ValueError (''Invalid mask_extension parameter '' @ e))"
    by (simp add: extend_mask_def subscript_def)
qed

theorem extend_mask_policies_witness:
  "(\<exists>ext. extend_mask (sample_builder Map.empty (sample_params\<lparr>mask_extension := Some ''average''\<rparr>))
        sample_vocals = Inr ext \<and>
      dim2 ext = 3 \<and> entry ext 0 0 0 0 = 3 \<and> entry ext 0 0 2 0 = 3 / 2) \<and>
   (\<exists>ext. extend_mask (sample_builder Map.empty sample_params) sample_vocals = Inr ext \<and>
      dim2 ext = 3 \<and> entry ext 0 0 0 0 = 3 \<and> entry ext 0 0 2 0 = 0) \<and>
   extend_mask (sample_builder Map.empty (sample_params\<lparr>mask_extension := Some ''ones''\<rparr>))
     sample_vocals = Inl (ValueError ''Invalid mask_extension parameter ones'')"
proof -
  let ?a = "sample_builder Map.empty (sample_params\<lparr>mask_extension := Some ''average''\<rparr>)"
  let ?z = "sample_builder Map.empty sample_params"
  let ?o = "sample_builder Map.empty (sample_params\<lparr>mask_extension := Some ''ones''\<rparr>)"
  have ha: "mask_extension (self_params ?a) = Some ''average'' \<and>
      int (dim2 sample_vocals) = self_F ?a \<and> 0 < dim2 sample_vocals \<and>
      self_F ?a \<le> self_frame_length ?a div 2 + 1"
    by (simp add: sample_builder_def sample_params_def sample_vocals_def)
  have hz: "mask_extension (self_params ?z) = Some ''zeros'' \<and>
      int (dim2 sample_vocals) = self_F ?z \<and>
      self_F ?z \<le> self_frame_length ?z div 2 + 1"
    by (simp add: sample_builder_def sample_params_def sample_vocals_def)
  have ho: "mask_extension (self_params ?o) = Some ''ones'' \<and>
      ''ones'' \<noteq> ''average'' \<and> ''ones'' \<noteq> ''zeros''"
    by (simp add: sample_builder_def sample_params_def)
  have w: "self_frame_length ?a div 2 + 1 = 3" "self_frame_length ?z div 2 + 1 = 3"
    by (simp_all add: sample_builder_def)
  have d: "dim2 sample_vocals = 2" "entry sample_vocals 0 0 0 0 = 3"
    "(\<Sum>j<2. entry sample_vocals 0 0 j 0) = 3"
    by (simp_all add: sample_vocals_def lessThan_Suc numeral_2_eq_2)
  from extend_mask_policies [of ?a sample_vocals "''ones''", THEN conjunct1, THEN mp, OF ha]
  obtain ea where
    ea: "extend_mask ?a sample_vocals = Inr ea"
      "int (dim2 ea) = self_frame_length ?a div 2 + 1"
      "\<forall>b t k c. k < dim2 sample_vocals \<longrightarrow> entry ea b t k c = entry sample_vocals b t k c"
      "\<forall>b t k c. dim2 sample_vocals \<le> k \<and> k < dim2 ea \<longrightarrow>
         entry ea b t k c = (\<Sum>j<dim2 sample_vocals. entry sample_vocals b t j c)
           / real (dim2 sample_vocals)"
    by (elim exE conjE)
  from extend_mask_policies [of ?z sample_vocals "''ones''", THEN conjunct2, THEN conjunct1, THEN mp, OF hz]
  obtain ez where
    ez: "extend_mask ?z sample_vocals = Inr ez"
      "int (dim2 ez) = self_frame_length ?z div 2 + 1"
      "\<forall>b t k c. k < dim2 sample_vocals \<longrightarrow> entry ez b t k c = entry sample_vocals b t k c"
      "\<forall>b t k c. dim2 sample_vocals \<le> k \<and> k < dim2 ez \<longrightarrow> entry ez b t k c = 0"
    by (elim exE conjE)
  have eo: "extend_mask ?o sample_vocals = Inl (ValueError ''Invalid mask_extension parameter ones'')"
    using extend_mask_policies [of ?o sample_vocals "''ones''", THEN conjunct2, THEN conjunct2, THEN mp, OF ho]
    by simp
  have da: "dim2 ea = 3" using ea(2) w(1) by linarith
  have dz: "dim2 ez = 3" using ez(2) w(2) by linarith
  have a2: "entry ea 0 0 2 0 = 3 / 2"
    using ea(4) [rule_format, of 2 0 0 0] da d by simp
  have z2: "entry ez 0 0 2 0 = 0"
    using ez(4) [rule_format, of 2 0 0 0] dz d by simp
  have a0: "entry ea 0 0 0 0 = 3"
    using ea(3) [rule_format, of 0 0 0 0] d by simp
  have z0: "entry ez 0 0 0 0 = 3"
    using ez(3) [rule_format, of 0 0 0 0] d by simp
  from ea(1) da a0 a2 have A: "\<exists>ext. extend_mask ?a sample_vocals = Inr ext \<and>
      dim2 ext = 3 \<and> entry ext 0 0 0 0 = 3 \<and> entry ext 0 0 2 0 = 3 / 2"
    by (intro exI [of _ ea] conjI)
  from ez(1) dz z0 z2 have Z: "\<exists>ext. extend_mask ?z sample_vocals = Inr ext \<and>
      dim2 ext = 3 \<and> entry ext 0 0 0 0 = 3 \<and> entry ext 0 0 2 0 = 0"
    by (intro exI [of _ ez] conjI)
  from A Z eo show ?thesis by (intro conjI)
qed

subsection \<open>Model resolution\<close>

text \<open>
  C8, as the code has it. With the mixture spectrogram among the features,
  \<^verbatim>\<open>_build_output_dict\<close> fails with the \<^verbatim>\<open>ValueError\<close> "No model function <name>
  found" (the spec's ModelNotFoundError) if and only if importing the submodule named
  by the model type raises \<^verbatim>\<open>ModuleNotFoundError\<close>, which it does exactly when the
  submodule cannot be located, or is located and an import inside it cannot be
  resolved (a submodule whose own code raises that very \<^verbatim>\<open>ValueError\<close> aside). When
  the submodule is imported, holds the named function and the model parameters are
  configured, the result is that function applied to the mixture spectrogram, the
  instrument list and the model parameters.
\<close>

theorem build_output_dict_model_resolution:
  assumes "self_features self (self_mix_name self @ ''_spectrogram'') = Some x"
  shows "(build_output_dict env self =
            Inl (ValueError (''No model function '' @ selected_model_type self @ '' found''))
          \<longleftrightarrow> ((\<exists>n. import_module env (path_to_module (selected_model_type self))
                      = Inl (ModuleNotFoundError n)) \<or>
               import_module env (path_to_module (selected_model_type self))
                 = Inl (ValueError (''No model function '' @ selected_model_type self
                          @ '' found'')))) \<and>
         ((\<exists>n. import_module env (path_to_module (selected_model_type self))
                 = Inl (ModuleNotFoundError n))
          \<longleftrightarrow> (env (path_to_module (selected_model_type self)) = None \<or>
               (\<exists>n. env (path_to_module (selected_model_type self))
                      = Some (Inl (ModuleNotFoundError n))))) \<and>
         (env (path_to_module (selected_model_type self)) = Some (Inr m) \<and>
          m (model_name (selected_model_type self)) = Some f \<and>
          model (self_params self) = Some mc \<and> model_params mc = Some mp \<longrightarrow>
            build_output_dict env self = Inr (f x (self_instruments self) mp))"
proof (intro conjI impI)
  show "build_output_dict env self =
            Inl (ValueError (''No model function '' @ selected_model_type self @ '' found''))
          \<longleftrightarrow> ((\<exists>n. import_module env (path_to_module (selected_model_type self))
                      = Inl (ModuleNotFoundError n)) \<or>
               import_module env (path_to_module (selected_model_type self))
                 = Inl (ValueError (''No model function '' @ selected_model_type self
                          @ '' found'')))"
    using assms
    by (auto simp: build_output_dict_def get_model_function_def getattr_def
        subscript_def Let_def split: option.splits sum.splits error.splits)
next
  show "(\<exists>n. import_module env (path_to_module (selected_model_type self))
                 = Inl (ModuleNotFoundError n))
          \<longleftrightarrow> (env (path_to_module (selected_model_type self)) = None \<or>
               (\<exists>n. env (path_to_module (selected_model_type self))
                      = Some (Inl (ModuleNotFoundError n))))"
    by (auto simp: import_module_def split: option.splits sum.splits)
next
  assume "env (path_to_module (selected_model_type self)) = Some (Inr m) \<and>
          m (model_name (selected_model_type self)) = Some f \<and>
          model (self_params self) = Some mc \<and> model_params mc = Some mp"
  then show "build_output_dict env self = Inr (f x (self_instruments self) mp)"
    using assms
    by (simp add: build_output_dict_def get_model_function_def import_module_def getattr_def
        subscript_def Let_def)
qed

lemma sample_model_paths:
  "path_to_module ''nonexistent.foo'' = ''spleeter.model.functions.nonexistent''"
  "path_to_module ''unet.unet'' = ''spleeter.model.functions.unet''"
  "path_to_module ''blstm.blstm'' = ''spleeter.model.functions.blstm''"
  "model_name ''unet.unet'' = ''unet''"
  by (simp_all add: path_to_module_def main_module_def relative_path_to_module_def
      model_name_def)

theorem build_output_dict_model_resolution_witness:
  "build_output_dict sample_modules
     (sample_builder sample_features
        (sample_params\<lparr>model := Some \<lparr> model_type = Some ''nonexistent.foo'',
                                         model_params = Some () \<rparr>\<rparr>))
     = Inl (ValueError ''No model function nonexistent.foo found'') \<and>
   build_output_dict sample_modules
     (sample_builder sample_features
        (sample_params\<lparr>model := Some \<lparr> model_type = Some ''blstm.blstm'',
                                         model_params = Some () \<rparr>\<rparr>))
     = Inl (ValueError ''No model function blstm.blstm found'') \<and>
   build_output_dict sample_modules (sample_builder sample_features sample_params)
     = Inr (sample_unet (Spectrogram sample_vocals) [''vocals'', ''drums''] ())"
proof -
  let ?bad = "sample_builder sample_features
        (sample_params\<lparr>model := Some \<lparr> model_type = Some ''nonexistent.foo'',
                                         model_params = Some () \<rparr>\<rparr>)"
  let ?broken = "sample_builder sample_features
        (sample_params\<lparr>model := Some \<lparr> model_type = Some ''blstm.blstm'',
                                         model_params = Some () \<rparr>\<rparr>)"
  let ?good = "sample_builder sample_features sample_params"
  have f: "self_features ?bad (self_mix_name ?bad @ ''_spectrogram'') = Some (Spectrogram sample_vocals)"
    "self_features ?good (self_mix_name ?good @ ''_spectrogram'') = Some (Spectrogram sample_vocals)"
    "self_features ?broken (self_mix_name ?broken @ ''_spectrogram'') = Some (Spectrogram sample_vocals)"
    by (simp_all add: sample_builder_def sample_features_def)
  have t: "selected_model_type ?bad = ''nonexistent.foo''"
    "selected_model_type ?good = ''unet.unet''"
    "selected_model_type ?broken = ''blstm.blstm''"
    by (simp_all add: selected_model_type_def sample_builder_def sample_params_def)
  have g: "model (self_params ?good) = Some \<lparr> model_type = Some ''unet.unet'', model_params = Some () \<rparr>"
    "self_instruments ?good = [''vocals'', ''drums'']"
    by (simp_all add: sample_builder_def sample_params_def)
  show ?thesis
    using
      build_output_dict_model_resolution [OF f(1), of sample_modules]
      build_output_dict_model_resolution [OF f(3), of sample_modules]
      build_output_dict_model_resolution [OF f(2), of sample_modules
        "[''unet'' \<mapsto> sample_unet]" sample_unet
        "\<lparr> model_type = Some ''unet.unet'', model_params = Some () \<rparr>" "()"]
    by (simp add: t sample_model_paths g sample_modules_def import_module_def)
qed

text \<open>
  The claim as it is stated, with "the submodule cannot be located" on the right of
  the equivalence, fails: the module \<^verbatim>\<open>blstm\<close> of the sample is located, and the
  \<^verbatim>\<open>ModuleNotFoundError\<close> of the import inside it is caught by the same \<^verbatim>\<open>except\<close>.
\<close>

theorem build_output_dict_located_module_counterexample:
  "sample_modules (path_to_module ''blstm.blstm'') \<noteq> None \<and>
   build_output_dict sample_modules
     (sample_builder sample_features
        (sample_params\<lparr>model := Some \<lparr> model_type = Some ''blstm.blstm'',
                                         model_params = Some () \<rparr>\<rparr>))
     = Inl (ValueError ''No model function blstm.blstm found'')"
  by (simp add: build_output_dict_def subscript_def Let_def sample_builder_def
      sample_params_def sample_features_def sample_modules_def selected_model_type_def
      get_model_function_def import_module_def sample_model_paths)

subsection \<open>An omitted model key\<close>

text \<open>
  C10. With the \<^verbatim>\<open>model\<close> key omitted, the default model type is resolved, and then
  \<^verbatim>\<open>self._params['model']['params']\<close> raises \<^verbatim>\<open>KeyError\<close>: whatever the modules
  and the features are, \<^verbatim>\<open>_build_output_dict\<close> does not return an output dictionary.
\<close>

lemma build_output_dict_without_model:
  "model (self_params self) = None \<Longrightarrow> \<exists>e. build_output_dict env self = Inl e"
  by (auto simp: build_output_dict_def subscript_def Let_def
      split: option.splits sum.splits error.splits)

theorem build_output_dict_omitted_model_key:
  "build_output_dict sample_modules
     (sample_builder sample_features (sample_params\<lparr>model := None\<rparr>))
     = Inl (KeyError ''model'')"
  by (simp add: build_output_dict_def subscript_def Let_def sample_builder_def
      sample_params_def sample_features_def sample_modules_def selected_model_type_def
      DEFAULT_MODEL_def get_model_function_def import_module_def getattr_def
      sample_model_paths)

subsection \<open>Mode dispatch\<close>

text \<open>
  C9. Once the builder is constructed (the required parameters are present), every
  mode other than \<^verbatim>\<open>PREDICT\<close>, \<^verbatim>\<open>EVAL\<close> and \<^verbatim>\<open>TRAIN\<close> makes \<^verbatim>\<open>model_fn\<close> raise
  the \<^verbatim>\<open>ValueError\<close> "Unknown mode ...", the spec's UnsupportedModeError, whatever the
  features, the labels and the collaborators are: no build method runs. The three
  supported modes give the result of the predict, the evaluation and the train build
  method.
\<close>

theorem model_fn_mode_dispatch:
  assumes "init features ps = Inr builder"
  shows "(mode \<noteq> PREDICT \<and> mode \<noteq> EVAL \<and> mode \<noteq> TRAIN \<longrightarrow>
           model_fn env features labels mode ps = Inl (ValueError (''Unknown mode '' @ mode))) \<and>
         model_fn env features labels PREDICT ps = build_predict_model env builder \<and>
         model_fn env features labels EVAL ps = build_evaluation_model env builder labels \<and>
         model_fn env features labels TRAIN ps = build_train_model env builder labels"
  using assms by (simp add: model_fn_def PREDICT_def EVAL_def TRAIN_def)

lemma init_sample: "init sample_features sample_params = Inr (sample_builder sample_features sample_params)"
  by (simp add: init_def subscript_def sample_params_def sample_builder_def)

lemma sample_eval:
  "build_evaluation_model sample_env (sample_builder sample_features sample_params)
       (map_of sample_output_dict)
     = Inr \<lparr> spec_mode = ''eval'', spec_predictions = None, spec_loss = Some 1,
             spec_train_op = None,
             spec_eval_metric_ops = Some [(''vocals_spectrogram'', 0), (''drums_spectrogram'', 1),
               (''absolute_difference'', 1)] \<rparr>"
proof -
  have od: "build_output_dict (modules sample_env) (sample_builder sample_features sample_params)
      = Inr [(''vocals_spectrogram'', sample_vocals), (''drums_spectrogram'', sample_vocals)]"
    by (simp add: build_output_dict_def subscript_def Let_def sample_builder_def
      sample_params_def sample_features_def sample_modules_def selected_model_type_def
      DEFAULT_MODEL_def get_model_function_def import_module_def getattr_def
      path_to_module_def main_module_def relative_path_to_module_def model_name_def
      sample_env_def sample_unet_def)
  have l: "build_loss (sample_builder sample_features sample_params)
      [(''vocals_spectrogram'', sample_vocals), (''drums_spectrogram'', sample_vocals)]
      (map_of sample_output_dict)
     = Inr (1, [(''vocals_spectrogram'', 0), (''drums_spectrogram'', 1),
               (''absolute_difference'', 1)])"
    by (simp add: build_loss_def build_losses_def selected_loss_type_def sample_builder_def
        sample_params_def sample_output_dict_def sample_vocals_def sample_drums_def
        L1_MASK_def l1_term_def subscript_def broadcast4_def
        broadcast_dim_def bidx_def reduce_mean_def tmap4_def size4_def
        lessThan_Suc numeral_2_eq_2 Let_def)
  show ?thesis
    by (simp add: build_evaluation_model_def od l EVAL_def)
qed

theorem model_fn_mode_dispatch_witness:
  "model_fn sample_env sample_features (map_of sample_output_dict) ''test'' sample_params
     = Inl (ValueError ''Unknown mode test'') \<and>
   model_fn sample_env sample_features (map_of sample_output_dict) ''infer'' sample_params
     = build_predict_model sample_env (sample_builder sample_features sample_params) \<and>
   model_fn sample_env sample_features (map_of sample_output_dict) ''eval'' sample_params
     = Inr \<lparr> spec_mode = ''eval'', spec_predictions = None, spec_loss = Some 1,
             spec_train_op = None,
             spec_eval_metric_ops = Some [(''vocals_spectrogram'', 0), (''drums_spectrogram'', 1),
               (''absolute_difference'', 1)] \<rparr> \<and>
   model_fn sample_env sample_features (map_of sample_output_dict) ''train'' sample_params
     = build_train_model sample_env (sample_builder sample_features sample_params)
         (map_of sample_output_dict)"
  using model_fn_mode_dispatch [OF init_sample, of "''test''" sample_env "map_of sample_output_dict"]
    sample_eval
  by (simp add: PREDICT_def EVAL_def TRAIN_def)

subsection \<open>Optimizer selection\<close>

text \<open>
  C7. When the configured optimizer name is \<^verbatim>\<open>Adadelta\<close> the builder returns an
  Adadelta optimizer, whether or not a learning rate is configured; when it is
  \<^verbatim>\<open>SGD\<close> it returns a gradient-descent optimizer with the configured learning rate;
  for every other name, and for an absent name, it returns an Adam optimizer with the
  configured learning rate instead of failing.
\<close>

theorem build_optimizer_selection:
  "(optimizer (self_params self) = Some ADADELTA \<longrightarrow>
      build_optimizer self = Inr AdadeltaOptimizer) \<and>
   (optimizer (self_params self) = Some SGD \<and> learning_rate (self_params self) = Some rate \<longrightarrow>
      build_optimizer self = Inr (GradientDescentOptimizer rate)) \<and>
   (optimizer (self_params self) \<noteq> Some ADADELTA \<and> optimizer (self_params self) \<noteq> Some SGD \<and>
    learning_rate (self_params self) = Some rate \<longrightarrow>
      build_optimizer self = Inr (AdamOptimizer rate))"
  by (simp add: build_optimizer_def subscript_def ADADELTA_def SGD_def)

theorem build_optimizer_selection_witness:
  "build_optimizer (sample_builder Map.empty
      (sample_params\<lparr>optimizer := Some ''Adadelta'', learning_rate := None\<rparr>))
     = Inr AdadeltaOptimizer \<and>
   build_optimizer (sample_builder Map.empty (sample_params\<lparr>optimizer := Some ''SGD''\<rparr>))
     = Inr (GradientDescentOptimizer (1 / 1000)) \<and>
   build_optimizer (sample_builder Map.empty (sample_params\<lparr>optimizer := Some ''RMSProp''\<rparr>))
     = Inr (AdamOptimizer (1 / 1000)) \<and>
   build_optimizer (sample_builder Map.empty sample_params) = Inr (AdamOptimizer (1 / 1000))"
  using
    build_optimizer_selection [of "sample_builder Map.empty
      (sample_params\<lparr>optimizer := Some ''Adadelta'', learning_rate := None\<rparr>)" 0]
    build_optimizer_selection [of "sample_builder Map.empty
      (sample_params\<lparr>optimizer := Some ''SGD''\<rparr>)" "1 / 1000"]
    build_optimizer_selection [of "sample_builder Map.empty
      (sample_params\<lparr>optimizer := Some ''RMSProp''\<rparr>)" "1 / 1000"]
    build_optimizer_selection [of "sample_builder Map.empty sample_params" "1 / 1000"]
  by (simp add: sample_builder_def sample_params_def ADADELTA_def SGD_def)

subsection \<open>Inverse transform\<close>

text \<open>
  What \<^verbatim>\<open>_build_stft_feature\<close> leaves in the builder: the waveform is untouched (the
  keys it writes end in \<^verbatim>\<open>_stft\<close> and \<^verbatim>\<open>_spectrogram\<close>), and the mixture STFT has
  \<open>\<lceil>samples / frame_step\<rceil>\<close> frames and the channels of the waveform.
\<close>

lemma stft_key_not_waveform: "mix @ ''_stft'' \<noteq> ''waveform''" "mix @ ''_spectrogram'' \<noteq> ''waveform''"
proof -
  have "last (mix @ ''_stft'') \<noteq> last ''waveform''" by simp
  then show "mix @ ''_stft'' \<noteq> ''waveform''" by metis
  have "length (mix @ ''_spectrogram'') \<noteq> length ''waveform''" by simp
  then show "mix @ ''_spectrogram'' \<noteq> ''waveform''" by metis
qed

lemma build_stft_feature_Inr:
  assumes bs: "build_stft_feature env self = Inr self'"
  shows "\<exists>w st. get_waveform self = Inr w \<and> get_waveform self' = Inr w \<and>
      get_stft self' = Inr st \<and>
      0 < self_frame_length self \<and> 0 < self_frame_step self \<and>
      self_frame_length self' = self_frame_length self \<and>
      self_frame_step self' = self_frame_step self \<and>
      len0 st = (rows w + nat (self_frame_step self) - 1) div nat (self_frame_step self) \<and>
      len2 st = cols w"
proof -
  from bs obtain w st0 where w: "get_waveform self = Inr w"
    and st0: "stft (transpose2 w) (self_frame_length self) (self_frame_step self) = Inr st0"
    and s': "self' = self\<lparr>self_features :=
               ((self_features self)(self_mix_name self @ ''_stft'' \<mapsto> Stft (transpose_120 st0)))
                 (self_mix_name self @ ''_spectrogram'' \<mapsto>
                    Spectrogram (slice_axis2 (tmap4 cmod
                      (pad_and_partition env (transpose_120 st0) (self_T self))) (self_F self)))\<rparr>"
    by (auto simp: build_stft_feature_def Let_def split: sum.splits)
  from st0 have pos: "0 < self_frame_length self" "0 < self_frame_step self"
    and d: "len0 st0 = rows (transpose2 w)"
      "len1 st0 = (cols (transpose2 w) + nat (self_frame_step self) - 1) div nat (self_frame_step self)"
    by (auto simp: stft_def Let_def split: if_splits)
  have w': "get_waveform self' = Inr w"
    using w by (simp add: get_waveform_def s' stft_key_not_waveform)
  have st: "get_stft self' = Inr (transpose_120 st0)"
    by (simp add: get_stft_def s' subscript_def)
  have l: "len0 (transpose_120 st0)
      = (rows w + nat (self_frame_step self) - 1) div nat (self_frame_step self)"
    "len2 (transpose_120 st0) = cols w"
    using d by (simp_all add: transpose_120_def transpose2_def)
  have k: "self_frame_length self' = self_frame_length self"
    "self_frame_step self' = self_frame_step self"
    by (simp_all add: s')
  from w w' st pos k l show ?thesis by blast
qed

lemma build_stft_feature_run:
  "get_waveform self = Inr w \<Longrightarrow> 0 < self_frame_length self \<Longrightarrow> 0 < self_frame_step self \<Longrightarrow>
     \<exists>self'. build_stft_feature env self = Inr self'"
  by (simp add: build_stft_feature_def stft_def Let_def)

text \<open>
  With \<open>frame_step \<le> frame_length\<close> the overlap-add of the frames is at least as long
  as the waveform.
\<close>

lemma frames_cover:
  fixes n s :: nat
  assumes "0 < s"
  shows "n \<le> s * ((n + s - 1) div s)"
proof -
  have a: "s * ((n + s - 1) div s) + (n + s - 1) mod s = n + s - 1"
    by (rule mult_div_mod_eq)
  have "(n + s - 1) mod s < s" using assms by simp
  with a assms show ?thesis by linarith
qed

lemma overlap_add_length:
  assumes s: "0 < S" and le: "S \<le> L"
  shows "int n \<le> L + S * (int ((n + nat S - 1) div nat S) - 1)"
proof -
  let ?q = "(n + nat S - 1) div nat S"
  from s have "n \<le> nat S * ?q" by (intro frames_cover) simp
  then have "int n \<le> int (nat S * ?q)" by (rule iffD2 [OF of_nat_le_iff])
  also have "\<dots> = S * int ?q" using s by simp
  finally have "int n \<le> S * int ?q" .
  moreover have "L + S * (int ?q - 1) = (L - S) + S * int ?q"
    by (simp add: algebra_simps)
  ultimately show ?thesis using le by simp
qed

text \<open>The result of \<^verbatim>\<open>_inverse_stft\<close>, entry by entry.\<close>

lemma inverse_stft_method_Inr:
  assumes w: "get_waveform self = Inr w"
    and pos: "0 < self_frame_length self" "0 < self_frame_step self"
  shows "\<exists>y. inverse_stft_method self x = Inr y \<and>
     cols y = len2 x \<and>
     rows y = min (rows w)
       (nat (self_frame_length self + self_frame_step self * (int (len0 x) - 1))) \<and>
     (\<forall>i c. entry2 y i c =
        (\<Sum>f<len0 x.
           if f * nat (self_frame_step self) \<le> i
              \<and> i < f * nat (self_frame_step self) + nat (self_frame_length self)
           then irfft (\<lambda>k. entry3 x f k c) (len1 x)
                  (enclosing_power_of_two (nat (self_frame_length self)))
                  (i - f * nat (self_frame_step self))
                * hann_window (nat (self_frame_length self))
                    (i - f * nat (self_frame_step self))
           else 0) * WINDOW_COMPENSATION_FACTOR)"
  using pos
  by (simp add: inverse_stft_method_def inverse_stft_def w Let_def slice_rows_def transpose2_def
      tmap2_def transpose_201_def cong: if_cong)

text \<open>
  C4, as the code has it. After \<^verbatim>\<open>_build_stft_feature\<close>, \<^verbatim>\<open>_inverse_stft\<close> returns for
  every STFT: each returned sample is the overlap-add, over the frames that cover it,
  of the inverse real FFT of the frame times the periodic Hann window of the configured
  frame length, times the window-compensation constant 2/3; the result has the
  channels of the STFT and is cut to at most the samples of the input waveform, never
  padded: its sample count is the smaller of the sample count of the waveform and
  \<open>frame_length + frame_step * (frames - 1)\<close>. When the STFT has the frames and the
  channels of the mixture STFT and \<open>frame_step \<le> frame_length\<close>, the result has
  exactly the sample count and the channel count of the input waveform.
\<close>

theorem inverse_stft_reconstruction:
  assumes bs: "build_stft_feature env self = Inr self'"
  shows "\<exists>w st. get_waveform self' = Inr w \<and> get_stft self' = Inr st \<and>
     WINDOW_COMPENSATION_FACTOR = 2 / 3 \<and>
     (\<forall>x. \<exists>y. inverse_stft_method self' x = Inr y \<and>
        cols y = len2 x \<and>
        rows y = min (rows w)
          (nat (self_frame_length self + self_frame_step self * (int (len0 x) - 1))) \<and>
        (\<forall>i c. entry2 y i c =
           (\<Sum>f<len0 x.
              if f * nat (self_frame_step self) \<le> i
                 \<and> i < f * nat (self_frame_step self) + nat (self_frame_length self)
              then irfft (\<lambda>k. entry3 x f k c) (len1 x)
                     (enclosing_power_of_two (nat (self_frame_length self)))
                     (i - f * nat (self_frame_step self))
                   * hann_window (nat (self_frame_length self))
                       (i - f * nat (self_frame_step self))
              else 0) * WINDOW_COMPENSATION_FACTOR) \<and>
        (len0 x = len0 st \<and> len2 x = len2 st
           \<and> self_frame_step self \<le> self_frame_length self \<longrightarrow>
             rows y = rows w \<and> cols y = cols w))"
proof -
  let ?L = "self_frame_length self" and ?S = "self_frame_step self"
  from build_stft_feature_Inr [OF bs] obtain w st
    where w: "get_waveform self' = Inr w" and st: "get_stft self' = Inr st"
      and pos: "0 < ?L" "0 < ?S"
      and k: "self_frame_length self' = ?L" "self_frame_step self' = ?S"
      and l0: "len0 st = (rows w + nat ?S - 1) div nat ?S" and l2: "len2 st = cols w"
    by blast
  have wcf: "WINDOW_COMPENSATION_FACTOR = 2 / 3"
    by (simp add: WINDOW_COMPENSATION_FACTOR_def)
  have each: "\<exists>y. inverse_stft_method self' x = Inr y \<and>
        cols y = len2 x \<and>
        rows y = min (rows w) (nat (?L + ?S * (int (len0 x) - 1))) \<and>
        (\<forall>i c. entry2 y i c =
           (\<Sum>f<len0 x.
              if f * nat ?S \<le> i \<and> i < f * nat ?S + nat ?L
              then irfft (\<lambda>k. entry3 x f k c) (len1 x) (enclosing_power_of_two (nat ?L))
                     (i - f * nat ?S)
                   * hann_window (nat ?L) (i - f * nat ?S)
              else 0) * WINDOW_COMPENSATION_FACTOR) \<and>
        (len0 x = len0 st \<and> len2 x = len2 st \<and> ?S \<le> ?L \<longrightarrow>
             rows y = rows w \<and> cols y = cols w)" for x
  proof -
    have pos': "0 < self_frame_length self'" "0 < self_frame_step self'"
      using pos by (simp_all add: k)
    from inverse_stft_method_Inr [OF w pos', of x] obtain y
      where y: "inverse_stft_method self' x = Inr y"
        and c: "cols y = len2 x"
        and r: "rows y = min (rows w) (nat (?L + ?S * (int (len0 x) - 1)))"
        and e: "\<forall>i c. entry2 y i c =
           (\<Sum>f<len0 x.
              if f * nat ?S \<le> i \<and> i < f * nat ?S + nat ?L
              then irfft (\<lambda>k. entry3 x f k c) (len1 x) (enclosing_power_of_two (nat ?L))
                     (i - f * nat ?S)
                   * hann_window (nat ?L) (i - f * nat ?S)
              else 0) * WINDOW_COMPENSATION_FACTOR"
      unfolding k by (elim exE conjE)
    have full: "rows y = rows w \<and> cols y = cols w"
      if h: "len0 x = len0 st \<and> len2 x = len2 st \<and> ?S \<le> ?L"
    proof -
      from h have a: "len0 x = (rows w + nat ?S - 1) div nat ?S" and b: "len2 x = cols w"
        and le: "?S \<le> ?L"
        by (simp_all add: l0 l2)
      from overlap_add_length [OF pos(2) le, of "rows w"]
      have "int (rows w) \<le> ?L + ?S * (int (len0 x) - 1)" by (simp add: a)
      then have "rows w \<le> nat (?L + ?S * (int (len0 x) - 1))" by linarith
      with r c b show ?thesis by simp
    qed
    from y c r e full show ?thesis by blast
  qed
  from w st wcf each show ?thesis by blast
qed

text \<open>
  A stereo waveform of three samples, with frame length 4 and frame step 1: the inverse
  of its own STFT has three samples and two channels.
\<close>

theorem inverse_stft_reconstruction_witness:
  "\<exists>self' st y.
     build_stft_feature sample_env
       (sample_builder [''waveform'' \<mapsto> Waveform sample_stereo] sample_params) = Inr self' \<and>
     get_waveform self' = Inr sample_stereo \<and>
     get_stft self' = Inr st \<and>
     inverse_stft_method self' st = Inr y \<and>
     rows y = 3 \<and> cols y = 2 \<and>
     entry2 y 0 0 = irfft (\<lambda>k. entry3 st 0 k 0) (len1 st) 4 0 * hann_window 4 0 * (2 / 3)"
proof -
  let ?B = "sample_builder [''waveform'' \<mapsto> Waveform sample_stereo] sample_params"
  have gw: "get_waveform ?B = Inr sample_stereo"
    by (simp add: get_waveform_def sample_builder_def subscript_def)
  have L: "self_frame_length ?B = 4" and S: "self_frame_step ?B = 1"
    by (simp_all add: sample_builder_def)
  have "\<exists>self'. build_stft_feature sample_env ?B = Inr self'"
    using gw by (rule build_stft_feature_run) (simp_all add: L S)
  then obtain self' where bs: "build_stft_feature sample_env ?B = Inr self'" ..
  from build_stft_feature_Inr [OF bs] gw have gw': "get_waveform self' = Inr sample_stereo"
    by auto
  from inverse_stft_reconstruction [OF bs] obtain w st
    where w: "get_waveform self' = Inr w" and st: "get_stft self' = Inr st"
      and wcf: "WINDOW_COMPENSATION_FACTOR = 2 / 3"
      and each: "\<forall>x. \<exists>y. inverse_stft_method self' x = Inr y \<and>
        cols y = len2 x \<and>
        rows y = min (rows w)
          (nat (self_frame_length ?B + self_frame_step ?B * (int (len0 x) - 1))) \<and>
        (\<forall>i c. entry2 y i c =
           (\<Sum>f<len0 x.
              if f * nat (self_frame_step ?B) \<le> i
                 \<and> i < f * nat (self_frame_step ?B) + nat (self_frame_length ?B)
              then irfft (\<lambda>k. entry3 x f k c) (len1 x)
                     (enclosing_power_of_two (nat (self_frame_length ?B)))
                     (i - f * nat (self_frame_step ?B))
                   * hann_window (nat (self_frame_length ?B))
                       (i - f * nat (self_frame_step ?B))
              else 0) * WINDOW_COMPENSATION_FACTOR) \<and>
        (len0 x = len0 st \<and> len2 x = len2 st
           \<and> self_frame_step ?B \<le> self_frame_length ?B \<longrightarrow>
             rows y = rows w \<and> cols y = cols w)"
    by (elim exE conjE)
  from w gw' have ws: "w = sample_stereo" by simp
  from each [rule_format, of st] obtain y
    where y: "inverse_stft_method self' st = Inr y"
      and e: "\<forall>i c. entry2 y i c =
           (\<Sum>f<len0 st.
              if f * nat (self_frame_step ?B) \<le> i
                 \<and> i < f * nat (self_frame_step ?B) + nat (self_frame_length ?B)
              then irfft (\<lambda>k. entry3 st f k c) (len1 st)
                     (enclosing_power_of_two (nat (self_frame_length ?B)))
                     (i - f * nat (self_frame_step ?B))
                   * hann_window (nat (self_frame_length ?B))
                       (i - f * nat (self_frame_step ?B))
              else 0) * WINDOW_COMPENSATION_FACTOR"
      and full: "len0 st = len0 st \<and> len2 st = len2 st
           \<and> self_frame_step ?B \<le> self_frame_length ?B \<longrightarrow>
             rows y = rows w \<and> cols y = cols w"
    by (elim exE conjE)
  from full have "rows y = rows w \<and> cols y = cols w"
    by (simp add: L S)
  then have r: "rows y = 3" and c: "cols y = 2"
    by (simp_all add: ws sample_stereo_def)
  from build_stft_feature_Inr [OF bs] st gw
  have "len0 st = (rows sample_stereo + nat (self_frame_step ?B) - 1)
      div nat (self_frame_step ?B)"
    by auto
  then have l0: "len0 st = 3"
    unfolding S by (simp add: sample_stereo_def)
  have p: "enclosing_power_of_two 4 = 4"
    by (simp add: enclosing_power_of_two_def)
  have "entry2 y 0 0 = (\<Sum>f<3. if f = 0
      then irfft (\<lambda>k. entry3 st f k 0) (len1 st) 4 0 * hann_window 4 0 else 0) * (2 / 3)"
    using e [rule_format, of 0 0] by (simp add: L S l0 p wcf cong: if_cong)
  then have e0: "entry2 y 0 0
      = irfft (\<lambda>k. entry3 st 0 k 0) (len1 st) 4 0 * hann_window 4 0 * (2 / 3)"
    by (simp add: lessThan_Suc numeral_3_eq_3)
  from bs gw' st y r c e0 show ?thesis by blast
qed

text \<open>
  With frame length 2 and frame step 4, a waveform of eight samples has two frames, and
  the inverse of its own STFT has \<open>2 + 4 * (2 - 1) = 6\<close> samples: the slice does not
  pad.
\<close>

theorem inverse_stft_never_pads_counterexample:
  "\<exists>self self' st y.
     init [''waveform'' \<mapsto> Waveform sample_long]
       (sample_params\<lparr>frame_length := Some 2, frame_step := Some 4\<rparr>) = Inr self \<and>
     build_stft_feature sample_env self = Inr self' \<and>
     get_waveform self' = Inr sample_long \<and>
     get_stft self' = Inr st \<and>
     inverse_stft_method self' st = Inr y \<and>
     rows sample_long = 8 \<and> rows y = 6"
proof -
  let ?B = "\<lparr> self_features = [''waveform'' \<mapsto> Waveform sample_long],
      self_params = sample_params\<lparr>frame_length := Some 2, frame_step := Some 4\<rparr>,
      self_mix_name = ''mix'', self_instruments = [''vocals'', ''drums''], self_n_channels = 1,
      self_T = 1, self_F = 2, self_frame_length = 2, self_frame_step = 4 \<rparr>"
  have i: "init [''waveform'' \<mapsto> Waveform sample_long]
       (sample_params\<lparr>frame_length := Some 2, frame_step := Some 4\<rparr>) = Inr ?B"
    by (simp add: init_def subscript_def sample_params_def)
  have gw: "get_waveform ?B = Inr sample_long"
    by (simp add: get_waveform_def subscript_def)
  have "\<exists>self'. build_stft_feature sample_env ?B = Inr self'"
    using gw by (rule build_stft_feature_run) simp_all
  then obtain self' where bs: "build_stft_feature sample_env ?B = Inr self'" ..
  from build_stft_feature_Inr [OF bs] gw obtain st
    where gw': "get_waveform self' = Inr sample_long" and st: "get_stft self' = Inr st"
      and k: "self_frame_length self' = 2" "self_frame_step self' = 4"
      and l0: "len0 st = 2"
    by (auto simp: sample_long_def)
  have pos: "0 < self_frame_length self'" "0 < self_frame_step self'"
    by (simp_all add: k)
  from inverse_stft_method_Inr [OF gw' pos, of st] obtain y
    where y: "inverse_stft_method self' st = Inr y"
      and "rows y = min (rows sample_long)
        (nat (self_frame_length self' + self_frame_step self' * (int (len0 st) - 1)))"
    by (elim exE conjE)
  then have r: "rows y = 6"
    by (simp add: k l0 sample_long_def)
  have n: "rows sample_long = 8" by (simp add: sample_long_def)
  from i bs gw' st y n r show ?thesis by blast
qed

end
